theory Spec2Isabelle
  imports Main
begin

section \<open>Session store (src/store/authStore.ts)\<close>

text \<open>
  The store's data part, \<^verbatim>\<open>interface AuthState\<close>. The identity record \<^verbatim>\<open>User\<close> is
  declared outside the store and is opaque to it, so it is the type parameter \<open>'u\<close>;
  \<^verbatim>\<open>User | null\<close> and \<^verbatim>\<open>string | null\<close> are options, \<open>None\<close> standing for \<^verbatim>\<open>null\<close>.
\<close>

record 'u AuthState =
  user :: "'u option"
  token :: "string option"
  isAuthenticated :: bool
  isLoading :: bool
  error :: "string option"
  hasCompletedOnboarding :: bool
  justSignedUp :: bool

definition initialState :: "'u AuthState" where
  "initialState =
     \<lparr>user = None, token = None, isAuthenticated = False, isLoading = False,
      error = None, hasCompletedOnboarding = False, justSignedUp = False\<rparr>"

text \<open>
  Every action is one call of \<^verbatim>\<open>set\<close> with a recipe that assigns to fields of the draft
  state; the store then holds the finished draft. An action is therefore a function from
  the state before to the state after, the assignments applied in the order of the source.
  \<^verbatim>\<open>!!user\<close> on a value of type \<^verbatim>\<open>User | null\<close> is true exactly for a record.
\<close>

definition setUser :: "'u option \<Rightarrow> 'u AuthState \<Rightarrow> 'u AuthState" where
  "setUser u s =
     (let s1 = s\<lparr>user := u\<rparr>;
          s2 = s1\<lparr>isAuthenticated := (case u of None \<Rightarrow> False | Some _ \<Rightarrow> True)\<rparr>
      in s2)"

definition setToken :: "string option \<Rightarrow> 'u AuthState \<Rightarrow> 'u AuthState" where
  "setToken t s = s\<lparr>token := t\<rparr>"

definition setLoading :: "bool \<Rightarrow> 'u AuthState \<Rightarrow> 'u AuthState" where
  "setLoading loading s = s\<lparr>isLoading := loading\<rparr>"

definition setError :: "string option \<Rightarrow> 'u AuthState \<Rightarrow> 'u AuthState" where
  "setError e s = s\<lparr>error := e\<rparr>"

text \<open>\<^verbatim>\<open>login: (user: User, token: string)\<close>: both arguments are non-null by their types.\<close>

definition login :: "'u \<Rightarrow> string \<Rightarrow> 'u AuthState \<Rightarrow> 'u AuthState" where
  "login u t s =
     (let s1 = s\<lparr>user := Some u\<rparr>;
          s2 = s1\<lparr>token := Some t\<rparr>;
          s3 = s2\<lparr>isAuthenticated := True\<rparr>;
          s4 = s3\<lparr>error := None\<rparr>
      in s4)"

definition logout :: "'u AuthState \<Rightarrow> 'u AuthState" where
  "logout s =
     (let s1 = s\<lparr>user := None\<rparr>;
          s2 = s1\<lparr>token := None\<rparr>;
          s3 = s2\<lparr>isAuthenticated := False\<rparr>;
          s4 = s3\<lparr>error := None\<rparr>;
          s5 = s4\<lparr>hasCompletedOnboarding := False\<rparr>;
          s6 = s5\<lparr>justSignedUp := False\<rparr>
      in s6)"

definition clearError :: "'u AuthState \<Rightarrow> 'u AuthState" where
  "clearError s = s\<lparr>error := None\<rparr>"

definition completeOnboarding :: "'u AuthState \<Rightarrow> 'u AuthState" where
  "completeOnboarding s = s\<lparr>hasCompletedOnboarding := True\<rparr>"

definition setJustSignedUp :: "bool \<Rightarrow> 'u AuthState \<Rightarrow> 'u AuthState" where
  "setJustSignedUp v s = s\<lparr>justSignedUp := v\<rparr>"

text \<open>
  \<^verbatim>\<open>interface AuthActions\<close> as a datatype: one constructor per action with its arguments,
  and the store's reaction to a call. A history of the store is a list of calls, run from
  the state the module creates the store with.
\<close>

datatype 'u AuthAction =
    SetUser "'u option"
  | SetToken "string option"
  | SetLoading bool
  | SetError "string option"
  | Login 'u string
  | Logout
  | ClearError
  | CompleteOnboarding
  | SetJustSignedUp bool

fun dispatch :: "'u AuthState \<Rightarrow> 'u AuthAction \<Rightarrow> 'u AuthState" where
  "dispatch s (SetUser u) = setUser u s"
| "dispatch s (SetToken t) = setToken t s"
| "dispatch s (SetLoading b) = setLoading b s"
| "dispatch s (SetError e) = setError e s"
| "dispatch s (Login u t) = login u t s"
| "dispatch s Logout = logout s"
| "dispatch s ClearError = clearError s"
| "dispatch s CompleteOnboarding = completeOnboarding s"
| "dispatch s (SetJustSignedUp v) = setJustSignedUp v s"

definition run :: "'u AuthAction list \<Rightarrow> 'u AuthState" where
  "run acts = foldl dispatch initialState acts"

text \<open>The stored flag agrees with the presence of a user.\<close>

definition auth_consistent :: "'u AuthState \<Rightarrow> bool" where
  "auth_consistent s = (isAuthenticated s = (user s \<noteq> None))"

text \<open>The selectors exported beside the store.\<close>

definition selectUser :: "'u AuthState \<Rightarrow> 'u option" where
  "selectUser s = user s"

definition selectIsAuthenticated :: "'u AuthState \<Rightarrow> bool" where
  "selectIsAuthenticated s = isAuthenticated s"

definition selectIsLoading :: "'u AuthState \<Rightarrow> bool" where
  "selectIsLoading s = isLoading s"

definition selectError :: "'u AuthState \<Rightarrow> string option" where
  "selectError s = error s"

subsection \<open>Persistence\<close>

text \<open>
  \<^verbatim>\<open>partialize\<close> builds the object that is written to storage under the key
  \<^verbatim>\<open>altrion-auth\<close>: an object literal with four properties. It is modelled as the list
  of its properties, name and value, in the order of the literal.
\<close>

datatype 'u Stored =
    StoredUser "'u option"
  | StoredString "string option"
  | StoredBool bool

type_synonym 'u Snapshot = "(string \<times> 'u Stored) list"

definition storage_name :: string where
  "storage_name = ''altrion-auth''"

definition partialize :: "'u AuthState \<Rightarrow> 'u Snapshot" where
  "partialize s =
     [(''user'', StoredUser (user s)),
      (''token'', StoredString (token s)),
      (''isAuthenticated'', StoredBool (isAuthenticated s)),
      (''hasCompletedOnboarding'', StoredBool (hasCompletedOnboarding s))]"

text \<open>
  Modelled from the spec: writing one stored property into the state, the step of the
  reload half of persistence, which is the persist middleware's and not under src/. A
  property that is no field of the state, or whose value has not the field's type, is
  passed over.
\<close>

fun assign :: "'u AuthState \<Rightarrow> string \<times> 'u Stored \<Rightarrow> 'u AuthState" where
  "assign s (k, StoredUser u) = (if k = ''user'' then s\<lparr>user := u\<rparr> else s)"
| "assign s (k, StoredString t) =
     (if k = ''token'' then s\<lparr>token := t\<rparr>
      else if k = ''error'' then s\<lparr>error := t\<rparr>
      else s)"
| "assign s (k, StoredBool b) =
     (if k = ''isAuthenticated'' then s\<lparr>isAuthenticated := b\<rparr>
      else if k = ''isLoading'' then s\<lparr>isLoading := b\<rparr>
      else if k = ''hasCompletedOnboarding'' then s\<lparr>hasCompletedOnboarding := b\<rparr>
      else if k = ''justSignedUp'' then s\<lparr>justSignedUp := b\<rparr>
      else s)"

text \<open>
  Modelled from the spec: the middleware's merge of a stored snapshot over a current
  state ("deserialized and merged over defaults (missing fields take initial-state
  values)"): every stored property is written over the current state, the fields that the
  snapshot does not name keep the current state's values.
\<close>

definition merge :: "'u Snapshot \<Rightarrow> 'u AuthState \<Rightarrow> 'u AuthState" where
  "merge persisted current = foldl assign current persisted"

text \<open>
  Modelled from the spec: the reload at process start, where the current state is the
  store's initial one. The encoding of a snapshot as text and back, also the
  middleware's, is taken to return the snapshot that was written.
\<close>

definition rehydrate :: "'u Snapshot \<Rightarrow> 'u AuthState" where
  "rehydrate persisted = merge persisted initialState"

section \<open>Route guards (src/components/routing/ProtectedRoute.tsx)\<close>

text \<open>
  The route table \<^verbatim>\<open>ROUTES\<close> is declared outside the guards; they read three of its
  paths, so it is a parameter of the model. \<^verbatim>\<open>useLocation()\<close> gives the current
  location: its path and the navigation state, which the guards read as
  \<^verbatim>\<open>{ from?: string }\<close> and which may be null.
\<close>

record Routes =
  LOGIN :: string
  DASHBOARD :: string
  ONBOARDING :: string

record NavState =
  from' :: "string option"

record Location =
  pathname :: string
  state :: "NavState option"

text \<open>
  What a guard returns: a \<^verbatim>\<open>Navigate\<close> element with its props (\<^verbatim>\<open>state\<close> is absent
  when not given, \<^verbatim>\<open>replace\<close> is a flag), or the children in a fragment.
\<close>

datatype 'c Element =
    Navigate (to: string) (nav_state: "NavState option") (replace: bool)
  | Fragment 'c

text \<open>A default parameter value stands in when the argument is not given.\<close>

definition default_param :: "'a option \<Rightarrow> 'a \<Rightarrow> 'a" where
  "default_param arg d = (case arg of None \<Rightarrow> d | Some v \<Rightarrow> v)"

text \<open>
  \<^verbatim>\<open>from || redirectTo\<close> with \<^verbatim>\<open>from: string | undefined\<close>: the left operand is the
  result unless it is falsy, and a string is falsy exactly when it is empty.
\<close>

definition or_else :: "string option \<Rightarrow> string \<Rightarrow> string" where
  "or_else l r = (case l of None \<Rightarrow> r | Some v \<Rightarrow> if v = [] then r else v)"

definition ProtectedRoute ::
  "Routes \<Rightarrow> 'u AuthState \<Rightarrow> Location \<Rightarrow> 'c \<Rightarrow> string option \<Rightarrow> 'c Element" where
  "ProtectedRoute routes store location children redirectTo_arg =
     (let redirectTo = default_param redirectTo_arg (LOGIN routes);
          isAuthenticated = selectIsAuthenticated store
      in if \<not> isAuthenticated
         then Navigate redirectTo (Some \<lparr>from' = Some (pathname location)\<rparr>) True
         else Fragment children)"

definition PublicOnlyRoute ::
  "Routes \<Rightarrow> 'u AuthState \<Rightarrow> Location \<Rightarrow> 'c \<Rightarrow> string option \<Rightarrow> 'c Element" where
  "PublicOnlyRoute routes store location children redirectTo_arg =
     (let redirectTo = default_param redirectTo_arg (DASHBOARD routes);
          isAuthenticated = selectIsAuthenticated store;
          justSignedUp = justSignedUp store
      in if isAuthenticated
         then if justSignedUp
              then Navigate (ONBOARDING routes) None True
              else (let from = (case state location of None \<Rightarrow> None | Some st \<Rightarrow> from' st)
                    in Navigate (or_else from redirectTo) None True)
         else Fragment children)"

section \<open>Platform service (the connection workflow)\<close>

text \<open>
  The backend's shapes and the front end's. A backend platform and a front-end
  \<^verbatim>\<open>Platform\<close> have the same four properties (\<^verbatim>\<open>id\<close>, \<^verbatim>\<open>name\<close>, \<^verbatim>\<open>icon\<close>,
  \<^verbatim>\<open>category\<close>); the fields carry the prefix \<open>b_\<close> for the backend's record, \<open>p_\<close> for
  the front end's and \<open>a_\<close> for an account's, to keep the records apart. The category is
  one of \<^verbatim>\<open>'crypto' | 'bank' | 'broker'\<close>, the status one of
  \<^verbatim>\<open>'pending' | 'connecting' | 'success' | 'error'\<close>; optional properties are options.
\<close>

datatype Category = Crypto | Bank | Broker

datatype ConnectionStatus = Pending | Connecting | Success | Error

record BackendPlatform =
  b_id :: string
  b_name :: string
  b_icon :: string
  b_category :: Category

record Platform =
  p_id :: string
  p_name :: string
  p_icon :: string
  p_category :: Category

record BackendConnectionResponse =
  platform_id :: string
  b_status :: ConnectionStatus
  b_message :: "string option"
  account_id :: "string option"

record ConnectionResult =
  platformId :: string
  status :: ConnectionStatus
  message :: "string option"

record PlatformGroups =
  crypto :: "Platform list"
  banks :: "Platform list"
  brokers :: "Platform list"

record Account =
  a_id :: string
  a_name :: string
  last_synced_at :: "string option"
  error_message :: "string option"

record ConnectedItem =
  platform :: BackendPlatform
  accounts :: "Account list"

record ApiKeyCredentials =
  apiKey :: string
  apiSecret :: string

text \<open>
  The body posted to the connect endpoint: \<^verbatim>\<open>{ credentials }\<close> or
  \<^verbatim>\<open>{ api_key, api_secret }\<close>. The credentials object is opaque to the service.
\<close>

datatype 'c ConnectBody =
    CredentialsBody 'c
  | ApiKeyBody string string

text \<open>
  The HTTP client \<^verbatim>\<open>api\<close> is outside the service, so each operation takes the call it
  makes as a parameter: a function from the request to its outcome, \<open>Inr data\<close> when the
  promise resolves with a response carrying \<open>data\<close> and \<open>Inl e\<close> when it rejects with
  \<open>e\<close>. An operation's own result is a sum in the same way: \<open>Inl e\<close> is the operation
  throwing \<open>e\<close> to its caller. \<^verbatim>\<open>try { ... } catch (error) { ... }\<close> runs the handler on
  what the body throws; the calls of \<^verbatim>\<open>console.error\<close> in the handlers only log and are
  left out. An operation's parameter \<^verbatim>\<open>platformId\<close> is written \<open>platformId_arg\<close>, the
  plain name being the result's field.
\<close>

definition try_catch :: "'e + 'a \<Rightarrow> ('e \<Rightarrow> 'e + 'a) \<Rightarrow> 'e + 'a" where
  "try_catch body handler = (case body of Inl e \<Rightarrow> handler e | Inr v \<Rightarrow> Inr v)"

definition await :: "'e + 'a \<Rightarrow> ('a \<Rightarrow> 'e + 'b) \<Rightarrow> 'e + 'b" where
  "await outcome continue = (case outcome of Inl e \<Rightarrow> Inl e | Inr v \<Rightarrow> continue v)"

definition connect_url :: "string \<Rightarrow> string" where
  "connect_url platformId_arg = ''/platforms/'' @ platformId_arg @ ''/connect''"

definition getPlatforms ::
  "(string \<Rightarrow> 'e + BackendPlatform list) \<Rightarrow> 'e + PlatformGroups" where
  "getPlatforms api_get =
     try_catch
       (await (api_get ''/platforms'') (\<lambda>data.
          let platforms =
                map (\<lambda>platform.
                       \<lparr>p_id = b_id platform, p_name = b_name platform,
                        p_icon = b_icon platform, p_category = b_category platform\<rparr>) data;
              walletPlatforms = filter (\<lambda>platform. p_id platform = ''wallet'') platforms;
              bankPlatforms = filter (\<lambda>platform. p_id platform = ''plaid'') platforms;
              fallbackWallet =
                \<lparr>p_id = ''wallet'', p_name = ''Wallet'', p_icon = ''/wallet.svg'',
                 p_category = Crypto\<rparr>;
              cryptoPlatforms =
                (if length walletPlatforms > 0 then walletPlatforms else [fallbackWallet])
          in Inr \<lparr>crypto = cryptoPlatforms, banks = bankPlatforms, brokers = []\<rparr>))
       (\<lambda>error.
          Inr \<lparr>crypto =
                 [\<lparr>p_id = ''wallet'', p_name = ''Wallet'', p_icon = ''/wallet.svg'',
                   p_category = Crypto\<rparr>],
               banks =
                 [\<lparr>p_id = ''plaid'', p_name = ''Plaid'', p_icon = ''/plaid.svg'',
                   p_category = Bank\<rparr>],
               brokers = []\<rparr>)"

definition connectWithCredentials ::
  "(string \<Rightarrow> 'c ConnectBody \<Rightarrow> 'e + BackendConnectionResponse) \<Rightarrow> string \<Rightarrow> 'c
     \<Rightarrow> 'e + ConnectionResult" where
  "connectWithCredentials api_post platformId_arg credentials =
     try_catch
       (await (api_post (connect_url platformId_arg) (CredentialsBody credentials)) (\<lambda>data.
          Inr \<lparr>platformId = platform_id data, status = b_status data,
               message = b_message data\<rparr>))
       (\<lambda>error.
          Inr \<lparr>platformId = platformId_arg, status = Error,
               message = Some ''Failed to connect. Please check your credentials.''\<rparr>)"

definition connectWithApiKey ::
  "(string \<Rightarrow> 'c ConnectBody \<Rightarrow> 'e + BackendConnectionResponse) \<Rightarrow> string
     \<Rightarrow> ApiKeyCredentials \<Rightarrow> 'e + ConnectionResult" where
  "connectWithApiKey api_post platformId_arg apiCredentials =
     try_catch
       (await (api_post (connect_url platformId_arg)
                 (ApiKeyBody (apiKey apiCredentials) (apiSecret apiCredentials))) (\<lambda>data.
          Inr \<lparr>platformId = platform_id data, status = b_status data,
               message = b_message data\<rparr>))
       (\<lambda>error.
          Inr \<lparr>platformId = platformId_arg, status = Error,
               message = Some ''Invalid API credentials.''\<rparr>)"

text \<open>
  \<^verbatim>\<open>disconnect\<close> is the service's contrast to the operations above: its handler throws
  the error again.
\<close>

definition disconnect :: "(string \<Rightarrow> 'e + unit) \<Rightarrow> string \<Rightarrow> 'e + unit" where
  "disconnect api_delete platformId_arg =
     try_catch
       (await (api_delete (''/platforms/'' @ platformId_arg @ ''/connection'')) (\<lambda>_. Inr ()))
       (\<lambda>error. Inl error)"

text \<open>
  \<^verbatim>\<open>getConnectedPlatforms\<close> fills an array, empty at first, in two nested
  \<^verbatim>\<open>forEach\<close> loops; \<^verbatim>\<open>push\<close> appends at the end. Each loop is a left fold that
  carries the array.
\<close>

definition push_account :: "BackendPlatform \<Rightarrow> Platform list \<Rightarrow> Account \<Rightarrow> Platform list" where
  "push_account item_platform platforms account =
     platforms @
       [\<lparr>p_id = a_id account, p_name = a_name account,
         p_icon = b_icon item_platform, p_category = b_category item_platform\<rparr>]"

definition push_item :: "Platform list \<Rightarrow> ConnectedItem \<Rightarrow> Platform list" where
  "push_item platforms item = foldl (push_account (platform item)) platforms (accounts item)"

definition getConnectedPlatforms ::
  "(string \<Rightarrow> 'e + ConnectedItem list) \<Rightarrow> 'e + Platform list" where
  "getConnectedPlatforms api_get =
     try_catch
       (await (api_get ''/platforms/connected'') (\<lambda>data.
          let platforms = foldl push_item [] data
          in Inr platforms))
       (\<lambda>error. Inr [])"

section \<open>Properties of the session store\<close>

subsection \<open>The invariant\<close>

lemma auth_consistent_initial: "auth_consistent initialState"
  by (simp add: auth_consistent_def initialState_def)

lemma auth_consistent_dispatch: "auth_consistent s \<Longrightarrow> auth_consistent (dispatch s a)"
  by (cases a)
     (simp_all add: auth_consistent_def setUser_def setToken_def setLoading_def setError_def
        login_def logout_def clearError_def completeOnboarding_def setJustSignedUp_def
        split: option.split)

lemma auth_consistent_foldl:
  "auth_consistent s \<Longrightarrow> auth_consistent (foldl dispatch s acts)"
  by (induction acts arbitrary: s) (simp_all add: auth_consistent_dispatch)

text \<open>
  Claim C1. After every sequence of store actions run from the initial state, the flag
  \<open>isAuthenticated\<close> is true exactly when \<open>user\<close> is not null. The statement is for
  every history, so it holds after each action of a history (each prefix is a history).
  The three actions that write \<open>user\<close> write \<open>isAuthenticated\<close> in the same step: the
  state each of them leaves satisfies the invariant whatever the state before was.
\<close>

theorem auth_invariant:
  "isAuthenticated (run acts) = (user (run acts) \<noteq> None)
   \<and> isAuthenticated (run (take n acts)) = (user (run (take n acts)) \<noteq> None)
   \<and> isAuthenticated (setUser u s) = (user (setUser u s) \<noteq> None)
   \<and> isAuthenticated (login v t s) = (user (login v t s) \<noteq> None)
   \<and> isAuthenticated (logout s) = (user (logout s) \<noteq> None)"
proof -
  have hist: "auth_consistent (run as)" for as :: "'a AuthAction list"
    unfolding run_def by (rule auth_consistent_foldl [OF auth_consistent_initial])
  have "auth_consistent (setUser u s)"
    by (simp add: auth_consistent_def setUser_def split: option.split)
  moreover have "auth_consistent (login v t s)"
    by (simp add: auth_consistent_def login_def)
  moreover have "auth_consistent (logout s)"
    by (simp add: auth_consistent_def logout_def)
  ultimately show ?thesis
    using hist [of acts] hist [of "take n acts"] by (simp add: auth_consistent_def)
qed

text \<open>
  Claim C2. After \<open>login u t\<close> from any state the session is authenticated, holds the user
  \<open>u\<close> and the token \<open>t\<close> and has no error; \<open>justSignedUp\<close>, \<open>hasCompletedOnboarding\<close>
  and \<open>isLoading\<close> keep the values they had.
\<close>

theorem login_effect:
  "isAuthenticated (login u t s) = True
   \<and> user (login u t s) = Some u
   \<and> token (login u t s) = Some t
   \<and> error (login u t s) = None
   \<and> justSignedUp (login u t s) = justSignedUp s
   \<and> hasCompletedOnboarding (login u t s) = hasCompletedOnboarding s
   \<and> isLoading (login u t s) = isLoading s"
  by (simp add: login_def)

text \<open>
  Claim C3. After \<open>logout\<close> from any state every field has its initial default, except
  \<open>isLoading\<close>, which keeps the value it had.
\<close>

theorem logout_resets:
  "logout s = initialState\<lparr>isLoading := isLoading s\<rparr>
   \<and> user (logout s) = None \<and> token (logout s) = None
   \<and> isAuthenticated (logout s) = False \<and> error (logout s) = None
   \<and> hasCompletedOnboarding (logout s) = False \<and> justSignedUp (logout s) = False
   \<and> isLoading (logout s) = isLoading s"
  by (simp add: logout_def initialState_def)

subsection \<open>Persistence\<close>

lemma rehydrate_partialize:
  "rehydrate (partialize s) =
     initialState\<lparr>user := user s, token := token s, isAuthenticated := isAuthenticated s,
       hasCompletedOnboarding := hasCompletedOnboarding s\<rparr>"
  by (simp add: rehydrate_def merge_def partialize_def)

text \<open>
  Claim C4. The persisted snapshot has exactly the four properties \<open>user\<close>, \<open>token\<close>,
  \<open>isAuthenticated\<close> and \<open>hasCompletedOnboarding\<close>, each once. Reloading the snapshot
  of a state over the defaults gives these four fields the values the state had, and gives
  \<open>isLoading\<close>, \<open>error\<close> and \<open>justSignedUp\<close> their initial defaults, whatever the
  state held for them; the reloaded state persists to the same snapshot again.
\<close>

theorem persisted_roundtrip:
  "set (map fst (partialize s)) =
     {''user'', ''token'', ''isAuthenticated'', ''hasCompletedOnboarding''}
   \<and> distinct (map fst (partialize s))
   \<and> user (rehydrate (partialize s)) = user s
   \<and> token (rehydrate (partialize s)) = token s
   \<and> isAuthenticated (rehydrate (partialize s)) = isAuthenticated s
   \<and> hasCompletedOnboarding (rehydrate (partialize s)) = hasCompletedOnboarding s
   \<and> isLoading (rehydrate (partialize s)) = isLoading initialState
   \<and> error (rehydrate (partialize s)) = error initialState
   \<and> justSignedUp (rehydrate (partialize s)) = justSignedUp initialState
   \<and> isLoading (rehydrate (partialize s)) = False
   \<and> error (rehydrate (partialize s)) = None
   \<and> justSignedUp (rehydrate (partialize s)) = False
   \<and> partialize (rehydrate (partialize s)) = partialize s"
  by (simp add: rehydrate_partialize) (simp add: partialize_def initialState_def)

section \<open>Properties of the route guards\<close>

text \<open>
  Claim C5. For every current path and every \<open>redirectTo\<close> (the login route when not
  given): when the session is not authenticated the protected wrapper returns a redirect
  to \<open>redirectTo\<close> with navigation state \<open>{from: path}\<close> and history replacement; when
  it is authenticated it returns its children. Two renderings that agree on the
  authentication flag and on the path give the same result, whatever else differs in the
  store and in the location.
\<close>

theorem ProtectedRoute_decision:
  "(\<not> isAuthenticated store \<longrightarrow>
      ProtectedRoute routes store location children redirectTo =
        Navigate (case redirectTo of None \<Rightarrow> LOGIN routes | Some r \<Rightarrow> r)
          (Some \<lparr>from' = Some (pathname location)\<rparr>) True)
   \<and> (isAuthenticated store \<longrightarrow>
      ProtectedRoute routes store location children redirectTo = Fragment children)
   \<and> (isAuthenticated store = isAuthenticated store' \<and> pathname location = pathname location' \<longrightarrow>
      ProtectedRoute routes store location children redirectTo =
        ProtectedRoute routes store' location' children redirectTo)"
  by (simp add: ProtectedRoute_def selectIsAuthenticated_def default_param_def Let_def)

theorem ProtectedRoute_decision_witness:
  "ProtectedRoute \<lparr>LOGIN = ''/login'', DASHBOARD = ''/dashboard'', ONBOARDING = ''/onboarding''\<rparr>
     (initialState :: nat AuthState) \<lparr>pathname = ''/accounts'', state = None\<rparr> () None
     = Navigate ''/login'' (Some \<lparr>from' = Some ''/accounts''\<rparr>) True
   \<and> ProtectedRoute \<lparr>LOGIN = ''/login'', DASHBOARD = ''/dashboard'', ONBOARDING = ''/onboarding''\<rparr>
     (login (7::nat) ''tok'' initialState) \<lparr>pathname = ''/accounts'', state = None\<rparr> () None
     = Fragment ()
   \<and> ProtectedRoute \<lparr>LOGIN = ''/login'', DASHBOARD = ''/dashboard'', ONBOARDING = ''/onboarding''\<rparr>
     (login (7::nat) ''tok'' initialState) \<lparr>pathname = ''/accounts'', state = None\<rparr> () None
     = ProtectedRoute \<lparr>LOGIN = ''/login'', DASHBOARD = ''/dashboard'', ONBOARDING = ''/onboarding''\<rparr>
         (setUser (Some (8::nat)) initialState)
         \<lparr>pathname = ''/accounts'', state = Some \<lparr>from' = Some ''/x''\<rparr>\<rparr> () None"
proof -
  let ?routes = "\<lparr>LOGIN = ''/login'', DASHBOARD = ''/dashboard'', ONBOARDING = ''/onboarding''\<rparr>"
  let ?here = "\<lparr>pathname = ''/accounts'', state = None\<rparr>"
  let ?there = "\<lparr>pathname = ''/accounts'', state = Some \<lparr>from' = Some ''/x''\<rparr>\<rparr>"
  have "\<not> isAuthenticated (initialState :: nat AuthState)"
    by (simp add: initialState_def)
  then have anonymous:
    "ProtectedRoute ?routes (initialState :: nat AuthState) ?here () None
       = Navigate ''/login'' (Some \<lparr>from' = Some ''/accounts''\<rparr>) True"
    using ProtectedRoute_decision [where store = "initialState :: nat AuthState"
        and routes = ?routes and location = ?here and children = "()" and redirectTo = None
        and store' = "initialState :: nat AuthState" and location' = ?here]
    by simp
  have "isAuthenticated (login (7::nat) ''tok'' initialState)"
    by (simp add: login_def)
  then have known: "ProtectedRoute ?routes (login (7::nat) ''tok'' initialState) ?here () None
       = Fragment ()"
    using ProtectedRoute_decision [where store = "login (7::nat) ''tok'' initialState"
        and routes = ?routes and location = ?here and children = "()" and redirectTo = None
        and store' = "initialState :: nat AuthState" and location' = ?here]
    by simp
  have "isAuthenticated (login (7::nat) ''tok'' initialState)
          = isAuthenticated (setUser (Some (8::nat)) initialState)
        \<and> pathname ?here = pathname ?there"
    by (simp add: login_def setUser_def)
  then have same: "ProtectedRoute ?routes (login (7::nat) ''tok'' initialState) ?here () None
       = ProtectedRoute ?routes (setUser (Some (8::nat)) initialState) ?there () None"
    using ProtectedRoute_decision [where store = "login (7::nat) ''tok'' initialState"
        and routes = ?routes and location = ?here and children = "()" and redirectTo = None
        and store' = "setUser (Some (8::nat)) initialState" and location' = ?there]
    by blast
  show ?thesis
    by (intro conjI) (rule anonymous, rule known, rule same)
qed

text \<open>
  Claim C6 as stated fails at a return-url that is present and empty. The public-only
  wrapper at an authenticated session that did not just sign up, with
  the empty string as the return-url in the navigation state and no \<open>redirectTo\<close>
  given: the redirect goes to the dashboard route, not to the return-url.
\<close>

theorem PublicOnlyRoute_empty_return_url_counterexample:
  "PublicOnlyRoute \<lparr>LOGIN = ''/login'', DASHBOARD = ''/dashboard'', ONBOARDING = ''/onboarding''\<rparr>
     (login (7::nat) ''tok'' initialState)
     \<lparr>pathname = ''/login'', state = Some \<lparr>from' = Some ''''\<rparr>\<rparr> () None
     = Navigate ''/dashboard'' None True
   \<and> PublicOnlyRoute \<lparr>LOGIN = ''/login'', DASHBOARD = ''/dashboard'', ONBOARDING = ''/onboarding''\<rparr>
     (login (7::nat) ''tok'' initialState)
     \<lparr>pathname = ''/login'', state = Some \<lparr>from' = Some ''''\<rparr>\<rparr> () None
     \<noteq> Navigate '''' None True"
  by (simp add: PublicOnlyRoute_def selectIsAuthenticated_def default_param_def or_else_def
        login_def initialState_def)

text \<open>
  Claim C6, amended. For the public-only wrapper: when the session is authenticated and
  has just signed up, the result is a redirect to the onboarding route with history
  replacement, whatever the return-url; when it is authenticated and has not just signed
  up, the redirect goes to the return-url of the navigation state if there is one and it
  is not the empty string, and to \<open>redirectTo\<close> (the dashboard route when not given) if
  the navigation state is null, has no return-url or has the empty one; when the session
  is not authenticated, the result is the children.
\<close>

theorem PublicOnlyRoute_decision:
  "(isAuthenticated store \<and> justSignedUp store \<longrightarrow>
      PublicOnlyRoute routes store location children redirectTo =
        Navigate (ONBOARDING routes) None True)
   \<and> (isAuthenticated store \<and> \<not> justSignedUp store
        \<and> state location = Some st \<and> from' st = Some url \<and> url \<noteq> [] \<longrightarrow>
      PublicOnlyRoute routes store location children redirectTo = Navigate url None True)
   \<and> (isAuthenticated store \<and> \<not> justSignedUp store
        \<and> (state location = None
            \<or> state location = Some st \<and> (from' st = None \<or> from' st = Some [])) \<longrightarrow>
      PublicOnlyRoute routes store location children redirectTo =
        Navigate (case redirectTo of None \<Rightarrow> DASHBOARD routes | Some r \<Rightarrow> r) None True)
   \<and> (\<not> isAuthenticated store \<longrightarrow>
      PublicOnlyRoute routes store location children redirectTo = Fragment children)"
  by (auto simp add: PublicOnlyRoute_def selectIsAuthenticated_def default_param_def
        or_else_def Let_def)

theorem PublicOnlyRoute_decision_witness:
  "PublicOnlyRoute \<lparr>LOGIN = ''/login'', DASHBOARD = ''/dashboard'', ONBOARDING = ''/onboarding''\<rparr>
     (setJustSignedUp True (login (7::nat) ''tok'' initialState))
     \<lparr>pathname = ''/signup'', state = Some \<lparr>from' = Some ''/custom''\<rparr>\<rparr> () None
     = Navigate ''/onboarding'' None True
   \<and> PublicOnlyRoute \<lparr>LOGIN = ''/login'', DASHBOARD = ''/dashboard'', ONBOARDING = ''/onboarding''\<rparr>
     (login (7::nat) ''tok'' initialState)
     \<lparr>pathname = ''/login'', state = Some \<lparr>from' = Some ''/custom''\<rparr>\<rparr> () None
     = Navigate ''/custom'' None True
   \<and> PublicOnlyRoute \<lparr>LOGIN = ''/login'', DASHBOARD = ''/dashboard'', ONBOARDING = ''/onboarding''\<rparr>
     (login (7::nat) ''tok'' initialState)
     \<lparr>pathname = ''/login'', state = None\<rparr> () None
     = Navigate ''/dashboard'' None True
   \<and> PublicOnlyRoute \<lparr>LOGIN = ''/login'', DASHBOARD = ''/dashboard'', ONBOARDING = ''/onboarding''\<rparr>
     (login (7::nat) ''tok'' initialState)
     \<lparr>pathname = ''/login'', state = Some \<lparr>from' = Some ''''\<rparr>\<rparr> () (Some ''/home'')
     = Navigate ''/home'' None True
   \<and> PublicOnlyRoute \<lparr>LOGIN = ''/login'', DASHBOARD = ''/dashboard'', ONBOARDING = ''/onboarding''\<rparr>
     (initialState :: nat AuthState)
     \<lparr>pathname = ''/login'', state = Some \<lparr>from' = Some ''/custom''\<rparr>\<rparr> () None
     = Fragment ()"
  using
    PublicOnlyRoute_decision [where store = "setJustSignedUp True (login (7::nat) ''tok'' initialState)"
      and routes = "\<lparr>LOGIN = ''/login'', DASHBOARD = ''/dashboard'', ONBOARDING = ''/onboarding''\<rparr>"
      and location = "\<lparr>pathname = ''/signup'', state = Some \<lparr>from' = Some ''/custom''\<rparr>\<rparr>"
      and children = "()" and redirectTo = None]
    PublicOnlyRoute_decision [where store = "login (7::nat) ''tok'' initialState"
      and routes = "\<lparr>LOGIN = ''/login'', DASHBOARD = ''/dashboard'', ONBOARDING = ''/onboarding''\<rparr>"
      and location = "\<lparr>pathname = ''/login'', state = Some \<lparr>from' = Some ''/custom''\<rparr>\<rparr>"
      and st = "\<lparr>from' = Some ''/custom''\<rparr>" and url = "''/custom''"
      and children = "()" and redirectTo = None]
    PublicOnlyRoute_decision [where store = "login (7::nat) ''tok'' initialState"
      and routes = "\<lparr>LOGIN = ''/login'', DASHBOARD = ''/dashboard'', ONBOARDING = ''/onboarding''\<rparr>"
      and location = "\<lparr>pathname = ''/login'', state = None\<rparr>"
      and children = "()" and redirectTo = None]
    PublicOnlyRoute_decision [where store = "login (7::nat) ''tok'' initialState"
      and routes = "\<lparr>LOGIN = ''/login'', DASHBOARD = ''/dashboard'', ONBOARDING = ''/onboarding''\<rparr>"
      and location = "\<lparr>pathname = ''/login'', state = Some \<lparr>from' = Some ''''\<rparr>\<rparr>"
      and st = "\<lparr>from' = Some ''''\<rparr>"
      and children = "()" and redirectTo = "Some ''/home''"]
    PublicOnlyRoute_decision [where store = "initialState :: nat AuthState"
      and routes = "\<lparr>LOGIN = ''/login'', DASHBOARD = ''/dashboard'', ONBOARDING = ''/onboarding''\<rparr>"
      and location = "\<lparr>pathname = ''/login'', state = Some \<lparr>from' = Some ''/custom''\<rparr>\<rparr>"
      and children = "()" and redirectTo = None]
  by (simp add: initialState_def login_def setJustSignedUp_def)

section \<open>Properties of the platform service\<close>

lemma try_catch_total:
  "(\<And>e. \<exists>r. handler e = Inr r) \<Longrightarrow> \<exists>r. try_catch body handler = Inr r"
  by (cases body) (simp_all add: try_catch_def)

text \<open>
  Claim C7. \<open>connectWithCredentials\<close> and \<open>connectWithApiKey\<close> return a result and never
  throw, for every input and every outcome of the backend call. When the backend call
  fails, \<open>connectWithCredentials\<close> returns the input platform id with status
  \<open>error\<close> and the message "Failed to connect. Please check your credentials.", and
  \<open>connectWithApiKey\<close> returns the input platform id with status \<open>error\<close> and the
  message "Invalid API credentials.".
\<close>

theorem connect_absorbs_failure:
  "(\<exists>r. connectWithCredentials api_post pid credentials = Inr r)
   \<and> (\<exists>r. connectWithApiKey api_post pid keys = Inr r)
   \<and> (api_post (connect_url pid) (CredentialsBody credentials) = Inl e \<longrightarrow>
        connectWithCredentials api_post pid credentials =
          Inr \<lparr>platformId = pid, status = Error,
               message = Some ''Failed to connect. Please check your credentials.''\<rparr>)
   \<and> (api_post (connect_url pid) (ApiKeyBody (apiKey keys) (apiSecret keys)) = Inl e \<longrightarrow>
        connectWithApiKey api_post pid keys =
          Inr \<lparr>platformId = pid, status = Error, message = Some ''Invalid API credentials.''\<rparr>)"
proof (intro conjI impI)
  show "\<exists>r. connectWithCredentials api_post pid credentials = Inr r"
    unfolding connectWithCredentials_def by (rule try_catch_total) simp
  show "\<exists>r. connectWithApiKey api_post pid keys = Inr r"
    unfolding connectWithApiKey_def by (rule try_catch_total) simp
next
  assume "api_post (connect_url pid) (CredentialsBody credentials) = Inl e"
  then show "connectWithCredentials api_post pid credentials =
          Inr \<lparr>platformId = pid, status = Error,
               message = Some ''Failed to connect. Please check your credentials.''\<rparr>"
    by (simp add: connectWithCredentials_def try_catch_def await_def)
next
  assume "api_post (connect_url pid) (ApiKeyBody (apiKey keys) (apiSecret keys)) = Inl e"
  then show "connectWithApiKey api_post pid keys =
          Inr \<lparr>platformId = pid, status = Error, message = Some ''Invalid API credentials.''\<rparr>"
    by (simp add: connectWithApiKey_def try_catch_def await_def)
qed

theorem connect_absorbs_failure_witness:
  "connectWithCredentials (\<lambda>url body. Inl ''timeout'' :: string + BackendConnectionResponse)
      ''binance'' (''alice'', ''secret'')
     = Inr \<lparr>platformId = ''binance'', status = Error,
            message = Some ''Failed to connect. Please check your credentials.''\<rparr>
   \<and> connectWithApiKey
       (\<lambda>url (body :: unit ConnectBody). Inl ''timeout'' :: string + BackendConnectionResponse)
       ''binance'' \<lparr>apiKey = ''k'', apiSecret = ''s''\<rparr>
     = Inr \<lparr>platformId = ''binance'', status = Error, message = Some ''Invalid API credentials.''\<rparr>"
  using
    connect_absorbs_failure [where api_post = "\<lambda>url (body :: (string \<times> string) ConnectBody).
          Inl ''timeout'' :: string + BackendConnectionResponse"
      and pid = "''binance''" and credentials = "(''alice'', ''secret'')" and e = "''timeout''"
      and keys = "\<lparr>apiKey = ''k'', apiSecret = ''s''\<rparr>"]
    connect_absorbs_failure [where api_post = "\<lambda>url (body :: unit ConnectBody).
          Inl ''timeout'' :: string + BackendConnectionResponse"
      and pid = "''binance''" and credentials = "()" and e = "''timeout''"
      and keys = "\<lparr>apiKey = ''k'', apiSecret = ''s''\<rparr>"]
  by simp

text \<open>
  Claim C8. When the backend call of \<open>getPlatforms\<close> fails, the error is not passed on:
  the result is the fixed fallback, whose crypto group is the one default wallet entry
  (id \<open>wallet\<close>), whose banks group is the one default Plaid entry (id \<open>plaid\<close>) and whose
  brokers group is empty.
\<close>

theorem getPlatforms_fallback:
  "api_get ''/platforms'' = Inl e \<longrightarrow>
     getPlatforms api_get =
       Inr \<lparr>crypto = [\<lparr>p_id = ''wallet'', p_name = ''Wallet'', p_icon = ''/wallet.svg'',
                       p_category = Crypto\<rparr>],
            banks = [\<lparr>p_id = ''plaid'', p_name = ''Plaid'', p_icon = ''/plaid.svg'',
                      p_category = Bank\<rparr>],
            brokers = []\<rparr>
     \<and> (\<exists>g. getPlatforms api_get = Inr g
            \<and> map p_id (crypto g) = [''wallet''] \<and> map p_id (banks g) = [''plaid'']
            \<and> brokers g = [])"
  by (simp add: getPlatforms_def try_catch_def await_def)

theorem getPlatforms_fallback_witness:
  "getPlatforms (\<lambda>url. Inl ''network down'' :: string + BackendPlatform list) =
       Inr \<lparr>crypto = [\<lparr>p_id = ''wallet'', p_name = ''Wallet'', p_icon = ''/wallet.svg'',
                       p_category = Crypto\<rparr>],
            banks = [\<lparr>p_id = ''plaid'', p_name = ''Plaid'', p_icon = ''/plaid.svg'',
                      p_category = Bank\<rparr>],
            brokers = []\<rparr>"
  using getPlatforms_fallback [where api_get = "\<lambda>url. Inl ''network down'' :: string + BackendPlatform list"
      and e = "''network down''"]
  by simp

subsection \<open>The two loops of \<open>getConnectedPlatforms\<close>\<close>

lemma foldl_push_account:
  "foldl (push_account pf) acc as =
     acc @ map (\<lambda>account. \<lparr>p_id = a_id account, p_name = a_name account,
                            p_icon = b_icon pf, p_category = b_category pf\<rparr>) as"
  by (induction as arbitrary: acc) (simp_all add: push_account_def)

lemma foldl_push_item:
  "foldl push_item acc items =
     acc @ concat (map (\<lambda>item. map (\<lambda>account.
               \<lparr>p_id = a_id account, p_name = a_name account,
                p_icon = b_icon (platform item), p_category = b_category (platform item)\<rparr>)
               (accounts item)) items)"
  by (induction items arbitrary: acc) (simp_all add: push_item_def foldl_push_account)

text \<open>
  Claim C9. For every backend payload, \<open>getConnectedPlatforms\<close> returns one record per
  account, in the payload's order: its id and name are the account's, its icon and
  category those of the platform the account stands under; the result has as many
  records as the payload has accounts. In particular one platform with two accounts
  gives two records with that platform's icon and category. When the backend call fails,
  the result is the empty sequence.
\<close>

theorem getConnectedPlatforms_flattens:
  "(api_get ''/platforms/connected'' = Inr data \<longrightarrow>
      getConnectedPlatforms api_get =
        Inr (concat (map (\<lambda>item. map (\<lambda>account.
               \<lparr>p_id = a_id account, p_name = a_name account,
                p_icon = b_icon (platform item), p_category = b_category (platform item)\<rparr>)
               (accounts item)) data))
      \<and> (\<exists>ps. getConnectedPlatforms api_get = Inr ps
            \<and> length ps = sum_list (map (\<lambda>item. length (accounts item)) data)))
   \<and> (api_get ''/platforms/connected'' = Inr [\<lparr>platform = pf, accounts = [a1, a2]\<rparr>] \<longrightarrow>
      getConnectedPlatforms api_get =
        Inr [\<lparr>p_id = a_id a1, p_name = a_name a1, p_icon = b_icon pf, p_category = b_category pf\<rparr>,
             \<lparr>p_id = a_id a2, p_name = a_name a2, p_icon = b_icon pf, p_category = b_category pf\<rparr>])
   \<and> (api_get ''/platforms/connected'' = Inl e \<longrightarrow> getConnectedPlatforms api_get = Inr [])"
proof (intro conjI impI)
  assume ok: "api_get ''/platforms/connected'' = Inr data"
  then show flat: "getConnectedPlatforms api_get =
        Inr (concat (map (\<lambda>item. map (\<lambda>account.
               \<lparr>p_id = a_id account, p_name = a_name account,
                p_icon = b_icon (platform item), p_category = b_category (platform item)\<rparr>)
               (accounts item)) data))"
    by (simp add: getConnectedPlatforms_def try_catch_def await_def foldl_push_item)
  show "\<exists>ps. getConnectedPlatforms api_get = Inr ps
            \<and> length ps = sum_list (map (\<lambda>item. length (accounts item)) data)"
    by (simp add: flat length_concat comp_def)
next
  assume "api_get ''/platforms/connected'' = Inr [\<lparr>platform = pf, accounts = [a1, a2]\<rparr>]"
  then show "getConnectedPlatforms api_get =
        Inr [\<lparr>p_id = a_id a1, p_name = a_name a1, p_icon = b_icon pf, p_category = b_category pf\<rparr>,
             \<lparr>p_id = a_id a2, p_name = a_name a2, p_icon = b_icon pf, p_category = b_category pf\<rparr>]"
    by (simp add: getConnectedPlatforms_def try_catch_def await_def push_item_def
          push_account_def)
next
  assume "api_get ''/platforms/connected'' = Inl e"
  then show "getConnectedPlatforms api_get = Inr []"
    by (simp add: getConnectedPlatforms_def try_catch_def await_def)
qed

theorem getConnectedPlatforms_flattens_witness:
  "getConnectedPlatforms (\<lambda>url. Inr
       [\<lparr>platform = \<lparr>b_id = ''plaid'', b_name = ''Plaid'', b_icon = ''/plaid.svg'', b_category = Bank\<rparr>,
         accounts = [\<lparr>a_id = ''acc-1'', a_name = ''Checking'', last_synced_at = None, error_message = None\<rparr>,
                     \<lparr>a_id = ''acc-2'', a_name = ''Savings'', last_synced_at = Some ''2024-01-01'',
                       error_message = None\<rparr>]\<rparr>] :: string + ConnectedItem list)
     = Inr [\<lparr>p_id = ''acc-1'', p_name = ''Checking'', p_icon = ''/plaid.svg'', p_category = Bank\<rparr>,
            \<lparr>p_id = ''acc-2'', p_name = ''Savings'', p_icon = ''/plaid.svg'', p_category = Bank\<rparr>]
   \<and> getConnectedPlatforms (\<lambda>url. Inl ''network down'' :: string + ConnectedItem list) = Inr []"
  using
    getConnectedPlatforms_flattens [where api_get = "\<lambda>url. Inr
       [\<lparr>platform = \<lparr>b_id = ''plaid'', b_name = ''Plaid'', b_icon = ''/plaid.svg'', b_category = Bank\<rparr>,
         accounts = [\<lparr>a_id = ''acc-1'', a_name = ''Checking'', last_synced_at = None, error_message = None\<rparr>,
                     \<lparr>a_id = ''acc-2'', a_name = ''Savings'', last_synced_at = Some ''2024-01-01'',
                       error_message = None\<rparr>]\<rparr>] :: string + ConnectedItem list"
      and data = "[\<lparr>platform = \<lparr>b_id = ''plaid'', b_name = ''Plaid'', b_icon = ''/plaid.svg'', b_category = Bank\<rparr>,
         accounts = [\<lparr>a_id = ''acc-1'', a_name = ''Checking'', last_synced_at = None, error_message = None\<rparr>,
                     \<lparr>a_id = ''acc-2'', a_name = ''Savings'', last_synced_at = Some ''2024-01-01'',
                       error_message = None\<rparr>]\<rparr>]"
      and pf = "\<lparr>b_id = ''plaid'', b_name = ''Plaid'', b_icon = ''/plaid.svg'', b_category = Bank\<rparr>"
      and ?a1.0 = "\<lparr>a_id = ''acc-1'', a_name = ''Checking'', last_synced_at = None, error_message = None\<rparr>"
      and ?a2.0 = "\<lparr>a_id = ''acc-2'', a_name = ''Savings'', last_synced_at = Some ''2024-01-01'',
                       error_message = None\<rparr>"
      and e = "''never''"]
    getConnectedPlatforms_flattens [where api_get = "\<lambda>url. Inl ''network down'' :: string + ConnectedItem list"
      and e = "''network down''" and data = "[]"
      and pf = "\<lparr>b_id = ''plaid'', b_name = ''Plaid'', b_icon = ''/plaid.svg'', b_category = Bank\<rparr>"
      and ?a1.0 = "\<lparr>a_id = ''acc-1'', a_name = ''Checking'', last_synced_at = None, error_message = None\<rparr>"
      and ?a2.0 = "\<lparr>a_id = ''acc-1'', a_name = ''Checking'', last_synced_at = None, error_message = None\<rparr>"]
  by simp

text \<open>
  Claim C10. On the success path of \<open>connectWithCredentials\<close> and
  \<open>connectWithApiKey\<close> the result's \<open>platformId\<close> is the \<open>platform_id\<close> of the
  backend's response, not the argument: for every argument there is a response for which
  the result's \<open>platformId\<close> differs from it. On the failure path the result's
  \<open>platformId\<close> is the argument.
\<close>

theorem connect_success_platformId:
  fixes api_post :: "string \<Rightarrow> 'c ConnectBody \<Rightarrow> 'e + BackendConnectionResponse"
  shows
  "(api_post (connect_url pid) (CredentialsBody credentials) = Inr data \<longrightarrow>
      connectWithCredentials api_post pid credentials =
        Inr \<lparr>platformId = platform_id data, status = b_status data, message = b_message data\<rparr>)
   \<and> (api_post (connect_url pid) (ApiKeyBody (apiKey keys) (apiSecret keys)) = Inr data \<longrightarrow>
      connectWithApiKey api_post pid keys =
        Inr \<lparr>platformId = platform_id data, status = b_status data, message = b_message data\<rparr>)
   \<and> (\<exists>answer r. connectWithCredentials (\<lambda>url body. Inr answer :: 'e + BackendConnectionResponse)
                      pid credentials = Inr r \<and> platformId r \<noteq> pid)
   \<and> (\<exists>answer r. connectWithApiKey
                      (\<lambda>url (body :: 'c ConnectBody). Inr answer :: 'e + BackendConnectionResponse)
                      pid keys = Inr r \<and> platformId r \<noteq> pid)
   \<and> (api_post (connect_url pid) (CredentialsBody credentials) = Inl e \<longrightarrow>
      (\<exists>r. connectWithCredentials api_post pid credentials = Inr r \<and> platformId r = pid))
   \<and> (api_post (connect_url pid) (ApiKeyBody (apiKey keys) (apiSecret keys)) = Inl e \<longrightarrow>
      (\<exists>r. connectWithApiKey api_post pid keys = Inr r \<and> platformId r = pid))"
proof -
  let ?answer = "\<lparr>platform_id = pid @ ''-1'', b_status = Success, b_message = None,
                  account_id = None\<rparr>"
  have differs: "platform_id ?answer \<noteq> pid"
    by simp
  have "connectWithCredentials (\<lambda>url body. Inr ?answer :: 'e + BackendConnectionResponse)
          pid credentials
        = Inr \<lparr>platformId = platform_id ?answer, status = Success, message = None\<rparr>"
    by (simp add: connectWithCredentials_def try_catch_def await_def)
  with differs have by_credentials:
    "\<exists>answer r. connectWithCredentials (\<lambda>url body. Inr answer :: 'e + BackendConnectionResponse)
                      pid credentials = Inr r \<and> platformId r \<noteq> pid"
    by (intro exI [of _ ?answer]) simp
  have "connectWithApiKey
          (\<lambda>url (body :: 'c ConnectBody). Inr ?answer :: 'e + BackendConnectionResponse) pid keys
        = Inr \<lparr>platformId = platform_id ?answer, status = Success, message = None\<rparr>"
    by (simp add: connectWithApiKey_def try_catch_def await_def)
  with differs have by_key:
    "\<exists>answer r. connectWithApiKey
                      (\<lambda>url (body :: 'c ConnectBody). Inr answer :: 'e + BackendConnectionResponse)
                      pid keys = Inr r \<and> platformId r \<noteq> pid"
    by (intro exI [of _ ?answer]) simp
  show ?thesis
    using by_credentials by_key
    by (simp add: connectWithCredentials_def connectWithApiKey_def try_catch_def await_def)
qed

theorem connect_success_platformId_witness:
  "connectWithCredentials
      (\<lambda>url (body :: unit ConnectBody).
         Inr \<lparr>platform_id = ''binance-main'', b_status = Success, b_message = Some ''linked'',
              account_id = Some ''acc-9''\<rparr> :: string + BackendConnectionResponse)
      ''binance'' ()
     = Inr \<lparr>platformId = ''binance-main'', status = Success, message = Some ''linked''\<rparr>
   \<and> connectWithApiKey
      (\<lambda>url (body :: unit ConnectBody).
         Inr \<lparr>platform_id = ''binance-main'', b_status = Success, b_message = Some ''linked'',
              account_id = Some ''acc-9''\<rparr> :: string + BackendConnectionResponse)
      ''binance'' \<lparr>apiKey = ''k'', apiSecret = ''s''\<rparr>
     = Inr \<lparr>platformId = ''binance-main'', status = Success, message = Some ''linked''\<rparr>
   \<and> (\<exists>r. connectWithCredentials
              (\<lambda>url (body :: unit ConnectBody). Inl ''timeout'' :: string + BackendConnectionResponse)
              ''binance'' () = Inr r \<and> platformId r = ''binance'')
   \<and> (\<exists>r. connectWithApiKey
              (\<lambda>url (body :: unit ConnectBody). Inl ''timeout'' :: string + BackendConnectionResponse)
              ''binance'' \<lparr>apiKey = ''k'', apiSecret = ''s''\<rparr> = Inr r \<and> platformId r = ''binance'')"
  using
    connect_success_platformId [where api_post = "\<lambda>url (body :: unit ConnectBody).
         Inr \<lparr>platform_id = ''binance-main'', b_status = Success, b_message = Some ''linked'',
              account_id = Some ''acc-9''\<rparr> :: string + BackendConnectionResponse"
      and pid = "''binance''" and credentials = "()"
      and keys = "\<lparr>apiKey = ''k'', apiSecret = ''s''\<rparr>" and e = "''never''"
      and data = "\<lparr>platform_id = ''binance-main'', b_status = Success, b_message = Some ''linked'',
              account_id = Some ''acc-9''\<rparr>"]
    connect_success_platformId [where api_post = "\<lambda>url (body :: unit ConnectBody).
         Inl ''timeout'' :: string + BackendConnectionResponse"
      and pid = "''binance''" and credentials = "()"
      and keys = "\<lparr>apiKey = ''k'', apiSecret = ''s''\<rparr>" and e = "''timeout''"
      and data = "\<lparr>platform_id = ''binance-main'', b_status = Success, b_message = Some ''linked'',
              account_id = Some ''acc-9''\<rparr>"]
  by simp

end
